theory Spec2Isabelle
  imports Main
begin

section \<open>JavaScript Number values\<close>

text \<open>
  A JavaScript Number is an IEEE 754 binary64 value. \<open>Finite s m e\<close> stands for
  \<open>(-1)^s * m * 2^e\<close> and is held as binary64 holds it: \<open>2^52 \<le> m < 2^53\<close> and
  \<open>-1074 \<le> e \<le> 971\<close> for a normal value, \<open>m < 2^52\<close> and \<open>e = -1074\<close> for a
  subnormal value and for the two zeros. So two finite Numbers are the same value with the
  same sign exactly when they are the same term.
\<close>

datatype number = NaN | Infinity bool | Finite bool int int

definition zero :: "bool \<Rightarrow> number" where
  "zero s = Finite s 0 (- 1074)"

text \<open>The number of binary digits of a positive integer, found by doubling a power of two.\<close>

function bits_from :: "int \<Rightarrow> int \<Rightarrow> int \<Rightarrow> int" where
  "bits_from n k pw = (if n < pw \<or> pw \<le> 0 then k else bits_from n (k + 1) (2 * pw))"
  by pat_completeness auto
termination
  by (relation "measure (\<lambda>(n, k, pw). nat (n + 1 - pw))") auto

declare bits_from.simps [simp del]

definition bit_length :: "int \<Rightarrow> int" where
  "bit_length n = (if n \<le> 0 then 0 else bits_from n 0 1)"

text \<open>\<open>floor_log2 p q\<close> is the integer \<open>l\<close> with \<open>2^l \<le> p / q < 2^(l+1)\<close>.\<close>

definition floor_log2 :: "int \<Rightarrow> int \<Rightarrow> int" where
  "floor_log2 p q =
    (let l = bit_length p - bit_length q
     in if l \<ge> 0 then (if p \<ge> q * 2 ^ nat l then l else l - 1)
        else (if p * 2 ^ nat (- l) \<ge> q then l else l - 1))"

text \<open>The integer nearest to \<open>num / den\<close>, the even one on a tie.\<close>

definition round_div :: "int \<Rightarrow> int \<Rightarrow> int" where
  "round_div num den =
    (let d = num div den;
         r = num mod den
     in if 2 * r > den \<or> (2 * r = den \<and> odd d) then d + 1 else d)"

text \<open>
  \<open>fround s p q\<close> is the binary64 value nearest to \<open>(-1)^s * p / q\<close> for positive
  \<open>p\<close> and \<open>q\<close>: 53 significant bits, ties to the even significand, the least exponent
  \<open>-1074\<close> (subnormal values, underflow to a zero of the same sign), and overflow to
  an infinity from \<open>2^1024\<close> on.
\<close>

definition fround :: "bool \<Rightarrow> int \<Rightarrow> int \<Rightarrow> number" where
  "fround s p q =
    (let e = max (floor_log2 p q - 52) (- 1074);
         m = (if e \<ge> 0 then round_div p (q * 2 ^ nat e) else round_div (p * 2 ^ nat (- e)) q)
     in if m = 2 ^ 53 then (if e \<ge> 971 then Infinity s else Finite s (2 ^ 52) (e + 1))
        else if e > 971 then Infinity s
        else Finite s m e)"

text \<open>A numeric literal of the source with an integer value, such as \<open>100\<close> or \<open>1e10\<close>.\<close>

definition js_int :: "int \<Rightarrow> number" where
  "js_int i = (if i = 0 then zero False else fround (i < 0) \<bar>i\<bar> 1)"

text \<open>\<open>Number.EPSILON\<close> is \<open>2^-52\<close>.\<close>

definition EPSILON :: number where
  "EPSILON = Finite False (2 ^ 52) (- 104)"

definition isNaN :: "number \<Rightarrow> bool" where
  "isNaN x = (x = NaN)"

fun isFinite :: "number \<Rightarrow> bool" where
  "isFinite (Finite s m e) = True"
| "isFinite x = False"

text \<open>\<open>x === 0\<close>: both zeros compare equal to \<open>0\<close>.\<close>

fun is_zero :: "number \<Rightarrow> bool" where
  "is_zero (Finite s m e) = (m = 0)"
| "is_zero x = False"

text \<open>\<open>Object.is(x, -0)\<close>.\<close>

definition is_neg_zero :: "number \<Rightarrow> bool" where
  "is_neg_zero x = (x = zero True)"

fun fneg :: "number \<Rightarrow> number" where
  "fneg NaN = NaN"
| "fneg (Infinity s) = Infinity (\<not> s)"
| "fneg (Finite s m e) = Finite (\<not> s) m e"

text \<open>The signed integer \<open>k\<close> with \<open>k * 2^e\<close> the exact sum of two finite values.\<close>

definition signed_mant :: "bool \<Rightarrow> int \<Rightarrow> int" where
  "signed_mant s m = (if s then - m else m)"

fun fadd :: "number \<Rightarrow> number \<Rightarrow> number" where
  "fadd NaN y = NaN"
| "fadd x NaN = NaN"
| "fadd (Infinity s) (Infinity t) = (if s = t then Infinity s else NaN)"
| "fadd (Infinity s) (Finite t m e) = Infinity s"
| "fadd (Finite s m e) (Infinity t) = Infinity t"
| "fadd (Finite s1 m1 e1) (Finite s2 m2 e2) =
    (let e = min e1 e2;
         k = signed_mant s1 m1 * 2 ^ nat (e1 - e) + signed_mant s2 m2 * 2 ^ nat (e2 - e)
     in if k = 0 then zero (if m1 = 0 \<and> m2 = 0 then s1 \<and> s2 else False)
        else if e \<ge> 0 then fround (k < 0) (\<bar>k\<bar> * 2 ^ nat e) 1
        else fround (k < 0) \<bar>k\<bar> (2 ^ nat (- e)))"

definition fsub :: "number \<Rightarrow> number \<Rightarrow> number" where
  "fsub x y = fadd x (fneg y)"

fun fmul :: "number \<Rightarrow> number \<Rightarrow> number" where
  "fmul NaN y = NaN"
| "fmul x NaN = NaN"
| "fmul (Infinity s) (Infinity t) = Infinity (s \<noteq> t)"
| "fmul (Infinity s) (Finite t m e) = (if m = 0 then NaN else Infinity (s \<noteq> t))"
| "fmul (Finite s m e) (Infinity t) = (if m = 0 then NaN else Infinity (s \<noteq> t))"
| "fmul (Finite s1 m1 e1) (Finite s2 m2 e2) =
    (let e = e1 + e2; k = m1 * m2
     in if k = 0 then zero (s1 \<noteq> s2)
        else if e \<ge> 0 then fround (s1 \<noteq> s2) (k * 2 ^ nat e) 1
        else fround (s1 \<noteq> s2) k (2 ^ nat (- e)))"

fun fdiv :: "number \<Rightarrow> number \<Rightarrow> number" where
  "fdiv NaN y = NaN"
| "fdiv x NaN = NaN"
| "fdiv (Infinity s) (Infinity t) = NaN"
| "fdiv (Infinity s) (Finite t m e) = Infinity (s \<noteq> t)"
| "fdiv (Finite s m e) (Infinity t) = zero (s \<noteq> t)"
| "fdiv (Finite s1 m1 e1) (Finite s2 m2 e2) =
    (if m2 = 0 then (if m1 = 0 then NaN else Infinity (s1 \<noteq> s2))
     else if m1 = 0 then zero (s1 \<noteq> s2)
     else if e1 \<ge> e2 then fround (s1 \<noteq> s2) (m1 * 2 ^ nat (e1 - e2)) m2
     else fround (s1 \<noteq> s2) m1 (m2 * 2 ^ nat (e2 - e1)))"

text \<open>
  \<open>Math.round\<close>: the integer nearest to \<open>x\<close>, a tie going towards \<open>+\<infinity>\<close>; the result
  is \<open>-0\<close> for \<open>-0.5 \<le> x < 0\<close> and for \<open>-0\<close>. NaN, the infinities and the integers are
  returned unchanged.
\<close>

fun Math_round :: "number \<Rightarrow> number" where
  "Math_round (Finite s m e) =
    (if e \<ge> 0 then Finite s m e
     else let r = (2 * signed_mant s m + 2 ^ nat (- e)) div 2 ^ nat (1 - e)
          in if r = 0 then zero s else fround (r < 0) \<bar>r\<bar> 1)"
| "Math_round x = x"

section \<open>Strings and the conversions between Numbers and strings\<close>

text \<open>
  A string is a list of bytes; the display holds ASCII characters only. The operator
  symbols of the secondary line are outside ASCII and are held in UTF-8; the program
  only concatenates them.
\<close>

definition is_digit :: "char \<Rightarrow> bool" where
  "is_digit c = (48 \<le> (of_char c :: nat) \<and> (of_char c :: nat) \<le> 57)"

definition digit_val :: "char \<Rightarrow> int" where
  "digit_val c = int (of_char c) - 48"

definition digits_value :: "string \<Rightarrow> int" where
  "digits_value cs = foldl (\<lambda>a c. 10 * a + digit_val c) 0 cs"

definition digit_char :: "int \<Rightarrow> char" where
  "digit_char d = char_of (48 + d)"

function dec_digits :: "int \<Rightarrow> string" where
  "dec_digits n = (if n < 10 then [digit_char n] else dec_digits (n div 10) @ [digit_char (n mod 10)])"
  by pat_completeness auto
termination
  by (relation "measure nat") auto

declare dec_digits.simps [simp del]

text \<open>The string methods \<open>includes\<close>, \<open>startsWith\<close> and \<open>endsWith\<close>, for a one-character argument.\<close>

definition includes_str :: "string \<Rightarrow> char \<Rightarrow> bool" where
  "includes_str s c = (c \<in> set s)"

definition startsWith :: "string \<Rightarrow> char \<Rightarrow> bool" where
  "startsWith s c = (s \<noteq> [] \<and> hd s = c)"

definition endsWith :: "string \<Rightarrow> char \<Rightarrow> bool" where
  "endsWith s c = (s \<noteq> [] \<and> last s = c)"

subsection \<open>\<open>Number(string)\<close>\<close>

text \<open>
  The conversion of a string to a Number (ECMAScript StringToNumber): white space is
  trimmed, the empty string is \<open>+0\<close>, a signed decimal literal (with an optional
  fraction and exponent, or \<open>Infinity\<close>) or an unsigned binary, octal or hexadecimal
  integer literal is rounded to the nearest Number, and any other string is NaN.
\<close>

definition is_ws :: "char \<Rightarrow> bool" where
  "is_ws c = ((of_char c :: nat) \<in> {9, 10, 11, 12, 13, 32})"

definition trim_ws :: "string \<Rightarrow> string" where
  "trim_ws s = rev (dropWhile is_ws (rev (dropWhile is_ws s)))"

definition parse_exponent :: "string \<Rightarrow> int option" where
  "parse_exponent r =
    (case r of
       [] \<Rightarrow> Some 0
     | c # t \<Rightarrow>
         if c = CHR ''e'' \<or> c = CHR ''E'' then
           (let neg = (t \<noteq> [] \<and> hd t = CHR ''-'');
                ds = (if t \<noteq> [] \<and> (hd t = CHR ''-'' \<or> hd t = CHR ''+'') then tl t else t)
            in if ds \<noteq> [] \<and> list_all is_digit ds
               then Some (if neg then - digits_value ds else digits_value ds)
               else None)
         else None)"

definition unsigned_decimal :: "bool \<Rightarrow> string \<Rightarrow> number" where
  "unsigned_decimal s t =
    (if t = ''Infinity'' then Infinity s
     else
       let ip = takeWhile is_digit t;
           r1 = dropWhile is_digit t;
           dot = (r1 \<noteq> [] \<and> hd r1 = CHR ''.'');
           fp = (if dot then takeWhile is_digit (tl r1) else []);
           r2 = (if dot then dropWhile is_digit (tl r1) else r1)
       in if ip = [] \<and> fp = [] then NaN
          else case parse_exponent r2 of
                 None \<Rightarrow> NaN
               | Some ex \<Rightarrow>
                   let v = digits_value (ip @ fp);
                       j = ex - int (length fp)
                   in if v = 0 then zero s
                      else if j \<ge> 0 then fround s (v * 10 ^ nat j) 1
                      else fround s v (10 ^ nat (- j)))"

definition radix_digit :: "char \<Rightarrow> int option" where
  "radix_digit c =
    (let k = (of_char c :: nat)
     in if 48 \<le> k \<and> k \<le> 57 then Some (int k - 48)
        else if 97 \<le> k \<and> k \<le> 102 then Some (int k - 87)
        else if 65 \<le> k \<and> k \<le> 70 then Some (int k - 55)
        else None)"

definition radix_value :: "int \<Rightarrow> string \<Rightarrow> int option" where
  "radix_value b cs =
    (if cs \<noteq> [] \<and> list_all (\<lambda>c. case radix_digit c of None \<Rightarrow> False | Some d \<Rightarrow> d < b) cs
     then Some (foldl (\<lambda>a c. b * a + the (radix_digit c)) 0 cs)
     else None)"

definition non_decimal :: "string \<Rightarrow> number option" where
  "non_decimal t =
    (case t of
       z # p # cs \<Rightarrow>
         if z = CHR ''0'' then
           (let b = (if p = CHR ''x'' \<or> p = CHR ''X'' then 16
                     else if p = CHR ''o'' \<or> p = CHR ''O'' then 8
                     else if p = CHR ''b'' \<or> p = CHR ''B'' then 2 else (0::int))
            in if b = 0 then None
               else case radix_value b cs of None \<Rightarrow> Some NaN | Some v \<Rightarrow> Some (js_int v))
         else None
     | _ \<Rightarrow> None)"

definition Number :: "string \<Rightarrow> number" where
  "Number str =
    (let t = trim_ws str
     in if t = [] then zero False
        else case non_decimal t of
               Some x \<Rightarrow> x
             | None \<Rightarrow>
                 if hd t = CHR ''-'' then unsigned_decimal True (tl t)
                 else if hd t = CHR ''+'' then unsigned_decimal False (tl t)
                 else unsigned_decimal False t)"

subsection \<open>\<open>String(number)\<close>\<close>

text \<open>
  The conversion of a Number to a string (ECMAScript Number::toString, radix 10): the
  digits are those of the least \<open>k\<close> and the integer \<open>s\<close> of \<open>k\<close> digits with
  \<open>s * 10^(n-k)\<close> rounding to the Number, taking the \<open>s\<close> nearest to it (the even one
  on a tie), as the engines do. Seventeen digits identify every binary64 value, so the
  search ends at \<open>k = 17\<close>.
\<close>

function below :: "int \<Rightarrow> int \<Rightarrow> int" where
  "below p q = (if p \<le> 0 \<or> 10 * p \<ge> q then 0 else 1 + below (10 * p) q)"
  by pat_completeness auto
termination
  by (relation "measure (\<lambda>(p, q). nat (q - p))") auto

declare below.simps [simp del]

text \<open>The \<open>n\<close> with \<open>10^(n-1) \<le> p / q < 10^n\<close>, for positive \<open>p\<close> and \<open>q\<close>.\<close>

definition decade :: "int \<Rightarrow> int \<Rightarrow> int" where
  "decade p q = (if p \<ge> q then int (length (dec_digits (p div q))) else - below p q)"

definition dec_round :: "int \<Rightarrow> int \<Rightarrow> number" where
  "dec_round s j = (if j \<ge> 0 then fround False (s * 10 ^ nat j) 1 else fround False s (10 ^ nat (- j)))"

text \<open>
  The candidates with \<open>k\<close> digits for the positive Number \<open>x = p / q\<close> are the two
  multiples of \<open>10^(n-k)\<close> around it, the nearer one first; \<open>force\<close> takes the nearer
  one whether or not it rounds to \<open>x\<close>. A candidate \<open>10^k\<close> is the digit 1 with the next
  exponent.
\<close>

definition carry :: "int \<Rightarrow> int \<Rightarrow> int \<Rightarrow> int \<times> int" where
  "carry s n k = (if s = 10 ^ nat k then (10 ^ nat (k - 1), n + 1) else (s, n))"

definition try_digits :: "bool \<Rightarrow> number \<Rightarrow> int \<Rightarrow> int \<Rightarrow> int \<Rightarrow> int \<Rightarrow> bool \<times> int \<times> int" where
  "try_digits force x p q n k =
    (let j = n - k;
         num = (if j \<ge> 0 then p else p * 10 ^ nat (- j));
         den = (if j \<ge> 0 then q * 10 ^ nat j else q);
         lo = num div den;
         r = num mod den;
         nearlo = (2 * r < den \<or> (2 * r = den \<and> even lo));
         fst_cand = (if nearlo then lo else lo + 1);
         snd_cand = (if nearlo then lo + 1 else lo)
     in if force \<or> dec_round fst_cand j = x then (True, carry fst_cand n k)
        else if dec_round snd_cand j = x then (True, carry snd_cand n k)
        else (False, 0, 0))"

function shortest :: "number \<Rightarrow> int \<Rightarrow> int \<Rightarrow> int \<Rightarrow> int \<Rightarrow> int \<times> int" where
  "shortest x p q n k =
    (let t = try_digits (k \<ge> 17) x p q n k
     in if k \<ge> 17 \<or> fst t then snd t else shortest x p q n (k + 1))"
  by pat_completeness auto
termination
  by (relation "measure (\<lambda>(x, p, q, n, k). nat (17 - k))") auto

declare shortest.simps [simp del]

definition layout :: "string \<Rightarrow> int \<Rightarrow> string" where
  "layout ds n =
    (let k = int (length ds)
     in if k \<le> n \<and> n \<le> 21 then ds @ replicate (nat (n - k)) (CHR ''0'')
        else if 0 < n \<and> n \<le> 21 then take (nat n) ds @ ''.'' @ drop (nat n) ds
        else if - 6 < n \<and> n \<le> 0 then ''0.'' @ replicate (nat (- n)) (CHR ''0'') @ ds
        else let e = n - 1;
                 es = (if e < 0 then ''-'' else ''+'') @ dec_digits \<bar>e\<bar>
             in if k = 1 then ds @ ''e'' @ es
                else hd ds # ''.'' @ tl ds @ ''e'' @ es)"

fun StringOf :: "number \<Rightarrow> string" where
  "StringOf NaN = ''NaN''"
| "StringOf (Infinity s) = (if s then ''-Infinity'' else ''Infinity'')"
| "StringOf (Finite s m e) =
    (if m = 0 then ''0''
     else
       let p = (if e \<ge> 0 then m * 2 ^ nat e else m);
           q = (if e \<ge> 0 then 1 else 2 ^ nat (- e));
           sn = shortest (Finite False m e) p q (decade p q) 1
       in (if s then ''-'' else '''') @ layout (dec_digits (fst sn)) (snd sn))"

section \<open>The calculator of \<open>App.js\<close>\<close>

subsection \<open>State\<close>

text \<open>
  The operators are the four strings \<open>"+"\<close>, \<open>"-"\<close>, \<open>"*"\<close>, \<open>"/"\<close> that the buttons
  and the keyboard handler pass. \<open>lastOp\<close> is the object \<open>{ op, rhs }\<close>. The seven
  \<open>useState\<close> cells are the fields of one record; an action reads the values of the
  last render and returns the updated record.
\<close>

datatype operator = Add | Sub | Mul | Div

record calc =
  display :: string
  prevValue :: "number option"
  pendingOp :: "operator option"
  lastOp :: "(operator \<times> number) option"
  previousLine :: string
  overwrite :: bool
  error :: bool

definition init :: calc where
  "init = \<lparr> display = ''0'', prevValue = None, pendingOp = None, lastOp = None,
            previousLine = '''', overwrite = False, error = False \<rparr>"

subsection \<open>Helpers\<close>

definition parseDisplayToNumber :: "string \<Rightarrow> number" where
  "parseDisplayToNumber valueStr =
    (if valueStr = ''-'' \<or> valueStr = '''' \<or> valueStr = ''.'' then js_int 0
     else let n = Number valueStr in if isNaN n then js_int 0 else n)"

text \<open>
  \<open>s.replace(/\.?0+$/, "")\<close> removes the leftmost suffix made of an optional point and
  one or more zeros.
\<close>

definition tail_match :: "string \<Rightarrow> bool" where
  "tail_match t =
    (let z = (if startsWith t (CHR ''.'') then tl t else t)
     in z \<noteq> [] \<and> list_all (\<lambda>c. c = CHR ''0'') z)"

fun replace_trailing :: "string \<Rightarrow> string" where
  "replace_trailing [] = []"
| "replace_trailing (c # cs) = (if tail_match (c # cs) then [] else c # replace_trailing cs)"

definition formatNumber :: "number \<Rightarrow> string" where
  "formatNumber n =
    (if \<not> isFinite n then ''Error''
     else
       let rounded = fdiv (Math_round (fmul (fadd n EPSILON) (js_int 10000000000))) (js_int 10000000000);
           normalized = (if is_neg_zero rounded then js_int 0 else rounded);
           s = StringOf normalized
       in if includes_str s (CHR ''e'') \<or> includes_str s (CHR ''E'') then s
          else if includes_str s (CHR ''.'') then replace_trailing s
          else s)"

definition setErrorState :: "calc \<Rightarrow> calc" where
  "setErrorState st =
    st\<lparr> error := True, display := ''Error'', prevValue := None, pendingOp := None,
        previousLine := '''', lastOp := None, overwrite := True \<rparr>"

definition clearAll :: "calc \<Rightarrow> calc" where
  "clearAll st =
    st\<lparr> error := False, display := ''0'', prevValue := None, pendingOp := None,
        lastOp := None, previousLine := '''', overwrite := False \<rparr>"

record result =
  ok :: bool
  val :: number

definition compute :: "number \<Rightarrow> operator \<Rightarrow> number \<Rightarrow> result" where
  "compute a op b =
    (if \<not> isFinite a \<or> \<not> isFinite b then \<lparr> ok = False, val = NaN \<rparr>
     else case op of
            Add \<Rightarrow> \<lparr> ok = True, val = fadd a b \<rparr>
          | Sub \<Rightarrow> \<lparr> ok = True, val = fsub a b \<rparr>
          | Mul \<Rightarrow> \<lparr> ok = True, val = fmul a b \<rparr>
          | Div \<Rightarrow> if is_zero b then \<lparr> ok = False, val = NaN \<rparr>
                   else \<lparr> ok = True, val = fdiv a b \<rparr>)"

text \<open>The symbols \<open>U+00D7\<close>, \<open>U+00F7\<close>, \<open>+\<close> and \<open>U+2212\<close>, in UTF-8.\<close>

fun opSymbol :: "operator \<Rightarrow> string" where
  "opSymbol Mul = [CHR 0xC3, CHR 0x97]"
| "opSymbol Div = [CHR 0xC3, CHR 0xB7]"
| "opSymbol Add = ''+''"
| "opSymbol Sub = [CHR 0xE2, CHR 0x88, CHR 0x92]"

subsection \<open>Actions\<close>

definition inputDigit :: "number \<Rightarrow> calc \<Rightarrow> calc" where
  "inputDigit digit st =
    (if error st then
       st\<lparr> error := False, prevValue := None, pendingOp := None, previousLine := '''',
           lastOp := None, display := StringOf digit, overwrite := False \<rparr>
     else if overwrite st then st\<lparr> overwrite := False, display := StringOf digit \<rparr>
     else if display st = ''0'' then st\<lparr> display := StringOf digit \<rparr>
     else if display st = ''-0'' then st\<lparr> display := ''-'' @ StringOf digit \<rparr>
     else st\<lparr> display := display st @ StringOf digit \<rparr>)"

definition inputDecimal :: "calc \<Rightarrow> calc" where
  "inputDecimal st =
    (if error st then
       st\<lparr> error := False, prevValue := None, pendingOp := None, previousLine := '''',
           lastOp := None, display := ''0.'', overwrite := False \<rparr>
     else if overwrite st then st\<lparr> overwrite := False, display := ''0.'' \<rparr>
     else if includes_str (display st) (CHR ''.'') then st
     else if display st = ''Error'' then st\<lparr> display := ''0.'' \<rparr>
     else if display st = ''-'' \<or> display st = '''' then st\<lparr> display := ''0.'' \<rparr>
     else st\<lparr> display := display st @ ''.'' \<rparr>)"

definition toggleSign :: "calc \<Rightarrow> calc" where
  "toggleSign st =
    (if error st then st
     else let prev = display st
          in if prev = ''0'' \<or> prev = ''0.'' then
               st\<lparr> display := ''-0'' @ (if endsWith prev (CHR ''.'') then ''.'' else '''') \<rparr>
             else if prev = ''-0'' \<or> prev = ''-0.'' then
               st\<lparr> display := ''0'' @ (if endsWith prev (CHR ''.'') then ''.'' else '''') \<rparr>
             else if startsWith prev (CHR ''-'') then st\<lparr> display := tl prev \<rparr>
             else st\<lparr> display := ''-'' @ prev \<rparr>)"

definition backspace :: "calc \<Rightarrow> calc" where
  "backspace st =
    (if error st then clearAll st
     else let prev = display st
          in if overwrite st then st\<lparr> display := ''0'' \<rparr>
             else if length prev \<le> 1 then st\<lparr> display := ''0'' \<rparr>
             else if length prev = 2 \<and> startsWith prev (CHR ''-'') then st\<lparr> display := ''0'' \<rparr>
             else st\<lparr> display := butlast prev \<rparr>)"

definition applyPercent :: "calc \<Rightarrow> calc" where
  "applyPercent st =
    (if error st then st
     else let current = parseDisplayToNumber (display st)
          in case (pendingOp st, prevValue st) of
               (Some p, Some pv) \<Rightarrow>
                 st\<lparr> display := formatNumber (fmul pv (fdiv current (js_int 100))), overwrite := True \<rparr>
             | _ \<Rightarrow> st\<lparr> display := formatNumber (fdiv current (js_int 100)), overwrite := True \<rparr>)"

definition setOperator :: "operator \<Rightarrow> calc \<Rightarrow> calc" where
  "setOperator op st =
    (if error st then st
     else
       let current = parseDisplayToNumber (display st)
       in if pendingOp st \<noteq> None \<and> overwrite st then
            st\<lparr> pendingOp := Some op,
                previousLine :=
                  formatNumber (case prevValue st of None \<Rightarrow> js_int 0 | Some v \<Rightarrow> v) @ '' '' @ opSymbol op \<rparr>
          else case (pendingOp st, prevValue st) of
                 (Some p, Some pv) \<Rightarrow>
                   let res = compute pv p current
                   in if \<not> ok res \<or> \<not> isFinite (val res) then setErrorState st
                      else let formatted = formatNumber (val res);
                               numeric = Number formatted
                           in st\<lparr> prevValue := Some numeric, display := formatted, pendingOp := Some op,
                                  previousLine := formatted @ '' '' @ opSymbol op, overwrite := True,
                                  lastOp := None \<rparr>
               | _ \<Rightarrow>
                   st\<lparr> prevValue := Some current, pendingOp := Some op,
                       previousLine := formatNumber current @ '' '' @ opSymbol op, overwrite := True,
                       lastOp := None \<rparr>)"

definition evaluateEquals :: "calc \<Rightarrow> calc" where
  "evaluateEquals st =
    (if error st then st
     else
       let current = parseDisplayToNumber (display st)
       in case (pendingOp st, prevValue st) of
            (Some p, Some pv) \<Rightarrow>
              let res = compute pv p current
              in if \<not> ok res \<or> \<not> isFinite (val res) then setErrorState st
                 else let formatted = formatNumber (val res);
                          resultNum = Number formatted
                      in st\<lparr> display := formatted, previousLine := '''', prevValue := Some resultNum,
                             pendingOp := None, overwrite := True, lastOp := Some (p, current) \<rparr>
          | _ \<Rightarrow>
              (case (pendingOp st, lastOp st) of
                 (None, Some (lop, rhs)) \<Rightarrow>
                   let lhs = parseDisplayToNumber (display st);
                       res = compute lhs lop rhs
                   in if \<not> ok res \<or> \<not> isFinite (val res) then setErrorState st
                      else st\<lparr> display := formatNumber (val res), overwrite := True \<rparr>
               | _ \<Rightarrow> st\<lparr> overwrite := True \<rparr>))"

text \<open>
  The eight kinds of action that \<open>handleButton\<close> dispatches. A digit action carries the
  Number of the key, one of \<open>0\<close> to \<open>9\<close>.
\<close>

datatype action =
  Digit int | Decimal | Op operator | Equals | Clear | Sign | Percent | Backspace

fun handleButton :: "action \<Rightarrow> calc \<Rightarrow> calc" where
  "handleButton (Digit d) st = inputDigit (js_int d) st"
| "handleButton Decimal st = inputDecimal st"
| "handleButton (Op op) st = setOperator op st"
| "handleButton Equals st = evaluateEquals st"
| "handleButton Clear st = clearAll st"
| "handleButton Sign st = toggleSign st"
| "handleButton Percent st = applyPercent st"
| "handleButton Backspace st = backspace st"

fun valid_action :: "action \<Rightarrow> bool" where
  "valid_action (Digit d) = (0 \<le> d \<and> d \<le> 9)"
| "valid_action a = True"

text \<open>The state after a sequence of actions, each on the state the previous one left.\<close>

definition run :: "action list \<Rightarrow> calc \<Rightarrow> calc" where
  "run acts st = foldl (\<lambda>s a. handleButton a s) st acts"

subsection \<open>Invariants of the reachable states\<close>

text \<open>
  The stored operand is present exactly when an operator is pending or a completed
  equals is remembered, and no operator is pending in the Error state.
\<close>

definition inv1 :: "calc \<Rightarrow> bool" where
  "inv1 st =
    ((if error st then pendingOp st = None else True) \<and>
     ((prevValue st \<noteq> None) = (pendingOp st \<noteq> None \<or> lastOp st \<noteq> None)))"

section \<open>Properties of the actions\<close>

subsection \<open>Runs and invariants\<close>

lemma run_snoc: "run (acts @ [a]) st = handleButton a (run acts st)"
  by (simp add: run_def)

lemma run_invariant:
  assumes "P st" and step: "\<And>s a. P s \<Longrightarrow> valid_action a \<Longrightarrow> P (handleButton a s)"
    and "list_all valid_action acts"
  shows "P (run acts st)"
  using assms(3)
proof (induction acts rule: rev_induct)
  case Nil
  show ?case using assms(1) by (simp add: run_def)
next
  case (snoc a acts)
  then show ?case by (simp add: run_snoc step)
qed

lemma inv1_init: "inv1 init"
  by (simp add: inv1_def init_def)

lemma inv1_step: "inv1 s \<Longrightarrow> inv1 (handleButton a s)"
  by (cases a)
     (auto simp: inv1_def inputDigit_def inputDecimal_def setOperator_def evaluateEquals_def
        clearAll_def toggleSign_def applyPercent_def backspace_def setErrorState_def Let_def
        split: option.splits prod.splits if_splits)

lemma inv1_run: "list_all valid_action acts \<Longrightarrow> inv1 (run acts init)"
  by (rule run_invariant [where P = inv1, OF inv1_init inv1_step])

subsection \<open>The branches of the actions\<close>

lemma evaluateEquals_pending:
  assumes "\<not> error st" "pendingOp st = Some p" "prevValue st = Some pv"
    and "ok (compute pv p (parseDisplayToNumber (display st)))"
    and "isFinite (val (compute pv p (parseDisplayToNumber (display st))))"
  shows "evaluateEquals st =
    st\<lparr> display := formatNumber (val (compute pv p (parseDisplayToNumber (display st)))),
        previousLine := '''',
        prevValue := Some (Number (formatNumber (val (compute pv p (parseDisplayToNumber (display st)))))),
        pendingOp := None, overwrite := True,
        lastOp := Some (p, parseDisplayToNumber (display st)) \<rparr>"
  using assms by (simp add: evaluateEquals_def Let_def)

lemma evaluateEquals_replay:
  assumes "\<not> error st" "pendingOp st = None" "lastOp st = Some (lop, rhs)"
    and "ok (compute (parseDisplayToNumber (display st)) lop rhs)"
    and "isFinite (val (compute (parseDisplayToNumber (display st)) lop rhs))"
  shows "evaluateEquals st =
    st\<lparr> display := formatNumber (val (compute (parseDisplayToNumber (display st)) lop rhs)),
        overwrite := True \<rparr>"
  using assms by (simp add: evaluateEquals_def Let_def)


lemma setOperator_chain:
  assumes "\<not> error st" "pendingOp st = Some p" "\<not> overwrite st" "prevValue st = Some pv"
    and "ok (compute pv p (parseDisplayToNumber (display st)))"
    and "isFinite (val (compute pv p (parseDisplayToNumber (display st))))"
  shows "setOperator op st =
    st\<lparr> prevValue := Some (Number (formatNumber (val (compute pv p (parseDisplayToNumber (display st)))))),
        display := formatNumber (val (compute pv p (parseDisplayToNumber (display st)))),
        pendingOp := Some op,
        previousLine := formatNumber (val (compute pv p (parseDisplayToNumber (display st)))) @ '' '' @ opSymbol op,
        overwrite := True, lastOp := None \<rparr>"
  using assms by (simp add: setOperator_def Let_def)

lemma applyPercent_pending:
  assumes "\<not> error st" "pendingOp st = Some p" "prevValue st = Some pv"
  shows "applyPercent st =
    st\<lparr> display := formatNumber (fmul pv (fdiv (parseDisplayToNumber (display st)) (js_int 100))),
        overwrite := True \<rparr>"
  using assms by (simp add: applyPercent_def Let_def)

lemma applyPercent_plain:
  assumes "\<not> error st" "pendingOp st = None"
  shows "applyPercent st =
    st\<lparr> display := formatNumber (fdiv (parseDisplayToNumber (display st)) (js_int 100)),
        overwrite := True \<rparr>"
  using assms by (simp add: applyPercent_def Let_def)

section \<open>The claims\<close>

text \<open>
  C1. The actions 8, divide, 0, equals leave the calculator in the Error state: the error
  flag is set and the display is the error marker \<open>Error\<close>. A following digit 5 gives the
  display \<open>5\<close> with the error flag cleared and no pending operator, stored operand,
  secondary line or last operation.
\<close>

theorem divide_by_zero_then_digit:
  "run [Digit 8, Op Div, Digit 0, Equals] init =
     \<lparr> display = ''Error'', prevValue = None, pendingOp = None, lastOp = None,
       previousLine = '''', overwrite = True, error = True \<rparr>
   \<and> run [Digit 8, Op Div, Digit 0, Equals, Digit 5] init =
     \<lparr> display = ''5'', prevValue = None, pendingOp = None, lastOp = None,
       previousLine = '''', overwrite = False, error = False \<rparr>"
  by code_simp

text \<open>
  C2. After 5, add, 3 the three presses of equals display \<open>8\<close>, \<open>11\<close> and \<open>14\<close>, and the
  last operation stays \<open>(add, 3)\<close>. In general, an equals with no pending operator and a
  remembered operation applies the remembered operator and right operand to the Number
  of the display, shows the formatted result and changes nothing else but the overwrite
  flag.
\<close>

theorem repeated_equals:
  "(\<forall>st lop rhs.
      \<not> error st \<and> pendingOp st = None \<and> lastOp st = Some (lop, rhs) \<and>
      ok (compute (parseDisplayToNumber (display st)) lop rhs) \<and>
      isFinite (val (compute (parseDisplayToNumber (display st)) lop rhs))
      \<longrightarrow> evaluateEquals st =
            st\<lparr> display := formatNumber (val (compute (parseDisplayToNumber (display st)) lop rhs)),
                overwrite := True \<rparr>)
   \<and> run [Digit 5, Op Add, Digit 3, Equals] init =
     \<lparr> display = ''8'', prevValue = Some (js_int 8), pendingOp = None, lastOp = Some (Add, js_int 3),
       previousLine = '''', overwrite = True, error = False \<rparr>
   \<and> run [Digit 5, Op Add, Digit 3, Equals, Equals] init =
     \<lparr> display = ''11'', prevValue = Some (js_int 8), pendingOp = None, lastOp = Some (Add, js_int 3),
       previousLine = '''', overwrite = True, error = False \<rparr>
   \<and> run [Digit 5, Op Add, Digit 3, Equals, Equals, Equals] init =
     \<lparr> display = ''14'', prevValue = Some (js_int 8), pendingOp = None, lastOp = Some (Add, js_int 3),
       previousLine = '''', overwrite = True, error = False \<rparr>"
proof (intro conjI allI impI)
  fix st :: calc and lop rhs
  assume "\<not> error st \<and> pendingOp st = None \<and> lastOp st = Some (lop, rhs) \<and>
      ok (compute (parseDisplayToNumber (display st)) lop rhs) \<and>
      isFinite (val (compute (parseDisplayToNumber (display st)) lop rhs))"
  then show "evaluateEquals st =
            st\<lparr> display := formatNumber (val (compute (parseDisplayToNumber (display st)) lop rhs)),
                overwrite := True \<rparr>"
    by (simp add: evaluateEquals_replay)
next
  show "run [Digit 5, Op Add, Digit 3, Equals] init =
     \<lparr> display = ''8'', prevValue = Some (js_int 8), pendingOp = None, lastOp = Some (Add, js_int 3),
       previousLine = '''', overwrite = True, error = False \<rparr>"
    by code_simp
next
  show "run [Digit 5, Op Add, Digit 3, Equals, Equals] init =
     \<lparr> display = ''11'', prevValue = Some (js_int 8), pendingOp = None, lastOp = Some (Add, js_int 3),
       previousLine = '''', overwrite = True, error = False \<rparr>"
    by code_simp
next
  show "run [Digit 5, Op Add, Digit 3, Equals, Equals, Equals] init =
     \<lparr> display = ''14'', prevValue = Some (js_int 8), pendingOp = None, lastOp = Some (Add, js_int 3),
       previousLine = '''', overwrite = True, error = False \<rparr>"
    by code_simp
qed

theorem repeated_equals_witness:
  "\<not> error (run [Digit 5, Op Add, Digit 3, Equals] init) \<and>
   pendingOp (run [Digit 5, Op Add, Digit 3, Equals] init) = None \<and>
   lastOp (run [Digit 5, Op Add, Digit 3, Equals] init) = Some (Add, js_int 3) \<and>
   ok (compute (parseDisplayToNumber (display (run [Digit 5, Op Add, Digit 3, Equals] init))) Add (js_int 3)) \<and>
   isFinite (val (compute (parseDisplayToNumber (display (run [Digit 5, Op Add, Digit 3, Equals] init))) Add (js_int 3))) \<and>
   evaluateEquals (run [Digit 5, Op Add, Digit 3, Equals] init) =
     (run [Digit 5, Op Add, Digit 3, Equals] init)
       \<lparr> display := formatNumber (val (compute (parseDisplayToNumber
                      (display (run [Digit 5, Op Add, Digit 3, Equals] init))) Add (js_int 3))),
         overwrite := True \<rparr>"
proof -
  have h: "\<not> error (run [Digit 5, Op Add, Digit 3, Equals] init) \<and>
   pendingOp (run [Digit 5, Op Add, Digit 3, Equals] init) = None \<and>
   lastOp (run [Digit 5, Op Add, Digit 3, Equals] init) = Some (Add, js_int 3) \<and>
   ok (compute (parseDisplayToNumber (display (run [Digit 5, Op Add, Digit 3, Equals] init))) Add (js_int 3)) \<and>
   isFinite (val (compute (parseDisplayToNumber (display (run [Digit 5, Op Add, Digit 3, Equals] init))) Add (js_int 3)))"
    by code_simp
  from repeated_equals [THEN conjunct1, rule_format, OF h] h show ?thesis
    by blast
qed



text \<open>
  C4. Outside the Error state, with a pending operator and a stored operand the percent
  action displays the formatted value of the stored operand times a hundredth of the
  Number of the display and sets the overwrite flag, changing nothing else; with no
  pending operator it displays the formatted hundredth of the Number of the display. The
  actions 2, 0, 0, add, 1, 0, percent display \<open>20\<close>, and a following equals displays \<open>220\<close>.
\<close>

theorem percent_of_operand:
  "(\<forall>st p pv.
      \<not> error st \<and> pendingOp st = Some p \<and> prevValue st = Some pv
      \<longrightarrow> applyPercent st =
            st\<lparr> display := formatNumber (fmul pv (fdiv (parseDisplayToNumber (display st)) (js_int 100))),
                overwrite := True \<rparr>)
   \<and> (\<forall>st. \<not> error st \<and> pendingOp st = None
      \<longrightarrow> applyPercent st =
            st\<lparr> display := formatNumber (fdiv (parseDisplayToNumber (display st)) (js_int 100)),
                overwrite := True \<rparr>)
   \<and> run [Digit 2, Digit 0, Digit 0, Op Add, Digit 1, Digit 0, Percent] init =
     \<lparr> display = ''20'', prevValue = Some (js_int 200), pendingOp = Some Add, lastOp = None,
       previousLine = ''200 +'', overwrite = True, error = False \<rparr>
   \<and> display (run [Digit 2, Digit 0, Digit 0, Op Add, Digit 1, Digit 0, Percent, Equals] init) = ''220''
   \<and> display (run [Digit 5, Percent] init) = ''0.05''"
proof (intro conjI allI impI)
  fix st :: calc and p pv
  assume "\<not> error st \<and> pendingOp st = Some p \<and> prevValue st = Some pv"
  then show "applyPercent st =
            st\<lparr> display := formatNumber (fmul pv (fdiv (parseDisplayToNumber (display st)) (js_int 100))),
                overwrite := True \<rparr>"
    by (simp add: applyPercent_pending)
next
  fix st :: calc
  assume "\<not> error st \<and> pendingOp st = None"
  then show "applyPercent st =
            st\<lparr> display := formatNumber (fdiv (parseDisplayToNumber (display st)) (js_int 100)),
                overwrite := True \<rparr>"
    by (simp add: applyPercent_plain)
next
  show "run [Digit 2, Digit 0, Digit 0, Op Add, Digit 1, Digit 0, Percent] init =
     \<lparr> display = ''20'', prevValue = Some (js_int 200), pendingOp = Some Add, lastOp = None,
       previousLine = ''200 +'', overwrite = True, error = False \<rparr>"
    by code_simp
next
  show "display (run [Digit 2, Digit 0, Digit 0, Op Add, Digit 1, Digit 0, Percent, Equals] init) = ''220''"
    by code_simp
next
  show "display (run [Digit 5, Percent] init) = ''0.05''"
    by code_simp
qed

theorem percent_of_operand_witness:
  "(\<not> error (run [Digit 2, Digit 0, Digit 0, Op Add, Digit 1, Digit 0] init) \<and>
    pendingOp (run [Digit 2, Digit 0, Digit 0, Op Add, Digit 1, Digit 0] init) = Some Add \<and>
    prevValue (run [Digit 2, Digit 0, Digit 0, Op Add, Digit 1, Digit 0] init) = Some (js_int 200)) \<and>
   applyPercent (run [Digit 2, Digit 0, Digit 0, Op Add, Digit 1, Digit 0] init) =
     (run [Digit 2, Digit 0, Digit 0, Op Add, Digit 1, Digit 0] init)
       \<lparr> display := formatNumber (fmul (js_int 200) (fdiv (parseDisplayToNumber
            (display (run [Digit 2, Digit 0, Digit 0, Op Add, Digit 1, Digit 0] init))) (js_int 100))),
         overwrite := True \<rparr> \<and>
   (\<not> error (run [Digit 5] init) \<and> pendingOp (run [Digit 5] init) = None) \<and>
   applyPercent (run [Digit 5] init) =
     (run [Digit 5] init)
       \<lparr> display := formatNumber (fdiv (parseDisplayToNumber (display (run [Digit 5] init))) (js_int 100)),
         overwrite := True \<rparr>"
proof -
  have h1: "\<not> error (run [Digit 2, Digit 0, Digit 0, Op Add, Digit 1, Digit 0] init) \<and>
    pendingOp (run [Digit 2, Digit 0, Digit 0, Op Add, Digit 1, Digit 0] init) = Some Add \<and>
    prevValue (run [Digit 2, Digit 0, Digit 0, Op Add, Digit 1, Digit 0] init) = Some (js_int 200)"
    by code_simp
  have h2: "\<not> error (run [Digit 5] init) \<and> pendingOp (run [Digit 5] init) = None"
    by code_simp
  from percent_of_operand [THEN conjunct1, rule_format, OF h1]
    percent_of_operand [THEN conjunct2, THEN conjunct1, rule_format, OF h2] h1 h2
  show ?thesis
    by blast
qed



text \<open>
  C6, as it stands, fails: after 5, add, 3, equals the stored operand 8 is held with no
  pending operator, and it is still held after the further digits 7 and 1, which are not
  right after the equals.
\<close>

theorem operand_kept_after_equals_counterexample:
  "run [Digit 5, Op Add, Digit 3, Equals, Digit 7, Digit 1] init =
     \<lparr> display = ''71'', prevValue = Some (js_int 8), pendingOp = None, lastOp = Some (Add, js_int 3),
       previousLine = '''', overwrite = False, error = False \<rparr>"
  by code_simp

text \<open>
  C6, amended. In every state reached from the initial state, the stored operand is
  present exactly when an operator is pending or a last operation is remembered (an
  equals has completed since the last clear, error or operator selection); no operator is
  pending in the Error state, initially, after clear and after entering the Error state.
\<close>

theorem operand_present_iff:
  "(\<forall>acts. list_all valid_action acts
      \<longrightarrow> ((prevValue (run acts init) \<noteq> None) =
             (pendingOp (run acts init) \<noteq> None \<or> lastOp (run acts init) \<noteq> None)) \<and>
          (error (run acts init) \<longrightarrow> pendingOp (run acts init) = None))
   \<and> pendingOp init = None
   \<and> (\<forall>st. pendingOp (clearAll st) = None \<and> pendingOp (setErrorState st) = None)"
proof (intro conjI allI impI)
  fix acts
  assume "list_all valid_action acts"
  then have i: "inv1 (run acts init)"
    by (rule inv1_run)
  then show "(prevValue (run acts init) \<noteq> None) =
             (pendingOp (run acts init) \<noteq> None \<or> lastOp (run acts init) \<noteq> None)"
    by (simp add: inv1_def)
  assume "error (run acts init)"
  with i show "pendingOp (run acts init) = None"
    by (simp add: inv1_def)
next
  show "pendingOp init = None"
    by (simp add: init_def)
next
  fix st :: calc
  show "pendingOp (clearAll st) = None"
    by (simp add: clearAll_def)
  show "pendingOp (setErrorState st) = None"
    by (simp add: setErrorState_def)
qed

theorem operand_present_iff_witness:
  "list_all valid_action [Digit 8, Op Div, Digit 0, Equals] \<and>
   ((prevValue (run [Digit 8, Op Div, Digit 0, Equals] init) \<noteq> None) =
     (pendingOp (run [Digit 8, Op Div, Digit 0, Equals] init) \<noteq> None \<or>
      lastOp (run [Digit 8, Op Div, Digit 0, Equals] init) \<noteq> None)) \<and>
   error (run [Digit 8, Op Div, Digit 0, Equals] init) \<and>
   pendingOp (run [Digit 8, Op Div, Digit 0, Equals] init) = None"
proof -
  have h: "list_all valid_action [Digit 8, Op Div, Digit 0, Equals]"
    by simp
  have e: "error (run [Digit 8, Op Div, Digit 0, Equals] init)"
    by code_simp
  from operand_present_iff [THEN conjunct1, rule_format, OF h] h e show ?thesis
    by blast
qed

text \<open>
  C10, as it stands, fails: the replay branch of equals also computes successfully, and
  it leaves the stored operand alone. After 5, add, 3, equals, equals the display is
  \<open>11\<close> and the stored operand is still 8.
\<close>

theorem stored_operand_after_replay_counterexample:
  "display (run [Digit 5, Op Add, Digit 3, Equals, Equals] init) = ''11'' \<and>
   prevValue (run [Digit 5, Op Add, Digit 3, Equals, Equals] init) = Some (js_int 8) \<and>
   Number (display (run [Digit 5, Op Add, Digit 3, Equals, Equals] init)) = js_int 11 \<and>
   js_int 8 \<noteq> js_int 11"
  by code_simp

text \<open>
  C10, amended. After every successful compute of a pending operation, in the operator
  action and in equals, the stored operand is the Number of the formatted display string
  and not the raw result: 0.1, add, 0.2, equals displays \<open>0.3\<close> and stores the Number of
  \<open>0.3\<close>, while the raw sum is the Number of \<open>0.30000000000000004\<close>. A following operator
  takes the Number of the display as its left operand, and so does a repeated equals.
\<close>

theorem stored_operand_is_displayed_value:
  "(\<forall>st op p pv.
      \<not> error st \<and> pendingOp st = Some p \<and> \<not> overwrite st \<and> prevValue st = Some pv \<and>
      ok (compute pv p (parseDisplayToNumber (display st))) \<and>
      isFinite (val (compute pv p (parseDisplayToNumber (display st))))
      \<longrightarrow> display (setOperator op st) = formatNumber (val (compute pv p (parseDisplayToNumber (display st)))) \<and>
          prevValue (setOperator op st) = Some (Number (display (setOperator op st))))
   \<and> (\<forall>st p pv.
      \<not> error st \<and> pendingOp st = Some p \<and> prevValue st = Some pv \<and>
      ok (compute pv p (parseDisplayToNumber (display st))) \<and>
      isFinite (val (compute pv p (parseDisplayToNumber (display st))))
      \<longrightarrow> display (evaluateEquals st) = formatNumber (val (compute pv p (parseDisplayToNumber (display st)))) \<and>
          prevValue (evaluateEquals st) = Some (Number (display (evaluateEquals st))))
   \<and> run [Digit 0, Decimal, Digit 1, Op Add, Digit 0, Decimal, Digit 2, Equals] init =
       \<lparr> display = ''0.3'', prevValue = Some (Number ''0.3''), pendingOp = None,
         lastOp = Some (Add, Number ''0.2''), previousLine = '''', overwrite = True, error = False \<rparr>
   \<and> fadd (Number ''0.1'') (Number ''0.2'') = Number ''0.30000000000000004''
   \<and> Number ''0.30000000000000004'' \<noteq> Number ''0.3''
   \<and> prevValue (run [Digit 0, Decimal, Digit 1, Op Add, Digit 0, Decimal, Digit 2, Equals, Op Mul] init)
       = Some (Number ''0.3'')
   \<and> display (run [Digit 0, Decimal, Digit 1, Op Add, Digit 0, Decimal, Digit 2, Equals, Equals] init)
       = formatNumber (fadd (Number ''0.3'') (Number ''0.2''))"
proof (intro conjI allI impI)
  fix st :: calc and op p pv
  assume h: "\<not> error st \<and> pendingOp st = Some p \<and> \<not> overwrite st \<and> prevValue st = Some pv \<and>
      ok (compute pv p (parseDisplayToNumber (display st))) \<and>
      isFinite (val (compute pv p (parseDisplayToNumber (display st))))"
  then show "display (setOperator op st) = formatNumber (val (compute pv p (parseDisplayToNumber (display st))))"
    by (simp add: setOperator_chain)
  from h show "prevValue (setOperator op st) = Some (Number (display (setOperator op st)))"
    by (simp add: setOperator_chain)
next
  fix st :: calc and p pv
  assume h: "\<not> error st \<and> pendingOp st = Some p \<and> prevValue st = Some pv \<and>
      ok (compute pv p (parseDisplayToNumber (display st))) \<and>
      isFinite (val (compute pv p (parseDisplayToNumber (display st))))"
  then show "display (evaluateEquals st) = formatNumber (val (compute pv p (parseDisplayToNumber (display st))))"
    by (simp add: evaluateEquals_pending)
  from h show "prevValue (evaluateEquals st) = Some (Number (display (evaluateEquals st)))"
    by (simp add: evaluateEquals_pending)
next
  show "run [Digit 0, Decimal, Digit 1, Op Add, Digit 0, Decimal, Digit 2, Equals] init =
       \<lparr> display = ''0.3'', prevValue = Some (Number ''0.3''), pendingOp = None,
         lastOp = Some (Add, Number ''0.2''), previousLine = '''', overwrite = True, error = False \<rparr>"
    by code_simp
next
  show "fadd (Number ''0.1'') (Number ''0.2'') = Number ''0.30000000000000004''"
    by code_simp
next
  show "Number ''0.30000000000000004'' \<noteq> Number ''0.3''"
    by code_simp
next
  show "prevValue (run [Digit 0, Decimal, Digit 1, Op Add, Digit 0, Decimal, Digit 2, Equals, Op Mul] init)
       = Some (Number ''0.3'')"
    by code_simp
next
  show "display (run [Digit 0, Decimal, Digit 1, Op Add, Digit 0, Decimal, Digit 2, Equals, Equals] init)
       = formatNumber (fadd (Number ''0.3'') (Number ''0.2''))"
    by code_simp
qed

theorem stored_operand_is_displayed_value_witness:
  "(\<not> error (run [Digit 2, Op Add, Digit 3] init) \<and>
    pendingOp (run [Digit 2, Op Add, Digit 3] init) = Some Add \<and>
    \<not> overwrite (run [Digit 2, Op Add, Digit 3] init) \<and>
    prevValue (run [Digit 2, Op Add, Digit 3] init) = Some (js_int 2) \<and>
    ok (compute (js_int 2) Add (parseDisplayToNumber (display (run [Digit 2, Op Add, Digit 3] init)))) \<and>
    isFinite (val (compute (js_int 2) Add (parseDisplayToNumber (display (run [Digit 2, Op Add, Digit 3] init)))))) \<and>
   prevValue (setOperator Mul (run [Digit 2, Op Add, Digit 3] init)) =
     Some (Number (display (setOperator Mul (run [Digit 2, Op Add, Digit 3] init)))) \<and>
   prevValue (evaluateEquals (run [Digit 2, Op Add, Digit 3] init)) =
     Some (Number (display (evaluateEquals (run [Digit 2, Op Add, Digit 3] init))))"
proof -
  have h: "\<not> error (run [Digit 2, Op Add, Digit 3] init) \<and>
    pendingOp (run [Digit 2, Op Add, Digit 3] init) = Some Add \<and>
    \<not> overwrite (run [Digit 2, Op Add, Digit 3] init) \<and>
    prevValue (run [Digit 2, Op Add, Digit 3] init) = Some (js_int 2) \<and>
    ok (compute (js_int 2) Add (parseDisplayToNumber (display (run [Digit 2, Op Add, Digit 3] init)))) \<and>
    isFinite (val (compute (js_int 2) Add (parseDisplayToNumber (display (run [Digit 2, Op Add, Digit 3] init)))))"
    by code_simp
  then have h': "\<not> error (run [Digit 2, Op Add, Digit 3] init) \<and>
    pendingOp (run [Digit 2, Op Add, Digit 3] init) = Some Add \<and>
    prevValue (run [Digit 2, Op Add, Digit 3] init) = Some (js_int 2) \<and>
    ok (compute (js_int 2) Add (parseDisplayToNumber (display (run [Digit 2, Op Add, Digit 3] init)))) \<and>
    isFinite (val (compute (js_int 2) Add (parseDisplayToNumber (display (run [Digit 2, Op Add, Digit 3] init)))))"
    by blast
  from stored_operand_is_displayed_value [THEN conjunct1, rule_format, OF h]
    stored_operand_is_displayed_value [THEN conjunct2, THEN conjunct1, rule_format, OF h'] h
  show ?thesis
    by blast
qed

end
